theory Spec2Isabelle
  imports
    Complex_Main
    "HOL-Library.AList"
    "HOL-Library.Log_Nat"
    "HOL-Library.Product_Lexorder"
    "HOL-Library.Char_ord"
    "HOL-Library.List_Lexorder"
    "HOL-Library.Multiset"
begin

section \<open>Python values, exceptions and log records\<close>

text \<open>
  The two libraries \<^verbatim>\<open>lib/env/__init__.py\<close> and \<^verbatim>\<open>lib/userfunctions.py\<close> are embedded
  function by function.

  Conventions of the embedding:
  \<^item> a Python \<^verbatim>\<open>float\<close> is a \<^typ>\<open>real\<close> (no \<^verbatim>\<open>nan\<close>, no \<^verbatim>\<open>inf\<close>) and a decimal literal denotes
    its decimal value. In the speed and distance conversions and in the Beaufort lookup
    the arithmetic is exact; in the two direction functions, which truncate a quotient
    to an index, every operation rounds to the nearest binary64 number. A Python \<^verbatim>\<open>int\<close>
    is an \<^typ>\<open>int\<close>;
  \<^item> a Python \<^verbatim>\<open>str\<close> is a \<^typ>\<open>string\<close>, one \<^typ>\<open>char\<close> per code point (all code points
    of the source's literals are below 256);
  \<^item> a raised exception is the left summand of a result, \<open>Inl e\<close>;
  \<^item> a call of a logger method appends a log record; the f-string of the source is kept
    as its text, with the interpolated values beside it.
\<close>

datatype pyval = PNone | PBool bool | PInt int | PFloat real | PStr string

datatype exc =
    ValueError string
  | NameError string
  | TypeError string
  | IndexError string
  | AttributeError string
  | OverflowError string
  | OtherException string

text \<open>\<^verbatim>\<open>str(e)\<close>: the message of an exception.\<close>

fun exc_str :: "exc \<Rightarrow> string" where
  "exc_str (ValueError s) = s"
| "exc_str (NameError s) = s"
| "exc_str (TypeError s) = s"
| "exc_str (IndexError s) = s"
| "exc_str (AttributeError s) = s"
| "exc_str (OverflowError s) = s"
| "exc_str (OtherException s) = s"

datatype level = ERROR | WARNING | NOTICE | DEBUG

datatype log_entry = Log level string "pyval list"

section \<open>Conversion toolkit: \<^verbatim>\<open>lib/env/__init__.py\<close>\<close>

subsection \<open>Speed conversions, module level\<close>

text \<open>The module constants \<^verbatim>\<open>_mile\<close> and \<^verbatim>\<open>_nautical_mile\<close>.\<close>

definition mile :: real where
  "mile = 1609.344"

definition nautical_mile :: real where
  "nautical_mile = 1852"

definition kn_to_kmh :: "real \<Rightarrow> real" where
  "kn_to_kmh speed = speed * nautical_mile"

definition kmh_to_kn :: "real \<Rightarrow> real" where
  "kmh_to_kn speed = speed / nautical_mile"

text \<open>
  \<^verbatim>\<open>ms_to_kmh\<close> and \<^verbatim>\<open>kmh_to_ms\<close> wrap their arithmetic in \<^verbatim>\<open>try\<close>; on a number the
  multiplication and the division by the non-zero constant cannot raise, so the handler
  is not reached.
\<close>

definition ms_to_kmh :: "real \<Rightarrow> real" where
  "ms_to_kmh speed = speed * 3.6"

definition kmh_to_ms :: "real \<Rightarrow> real" where
  "kmh_to_ms speed = speed / 3.6"

definition mps_to_kmh :: "real \<Rightarrow> real" where
  "mps_to_kmh speed = speed * 3.6 * mile"

definition kmh_to_mps :: "real \<Rightarrow> real" where
  "kmh_to_mps speed = speed / 3.6 / mile"

subsection \<open>Speed conversions, static methods of class \<^verbatim>\<open>Env\<close>\<close>

definition Env_ms_to_kmh :: "real \<Rightarrow> real" where
  "Env_ms_to_kmh speed_in_mps = speed_in_mps * 3.6"

definition Env_kmh_to_ms :: "real \<Rightarrow> real" where
  "Env_kmh_to_ms speed_in_kmh = speed_in_kmh / 3.6"

definition Env_mps_to_kmh :: "real \<Rightarrow> real" where
  "Env_mps_to_kmh speed_in_mps = speed_in_mps * 3.6 * 1609.344"

definition Env_kmh_to_mps :: "real \<Rightarrow> real" where
  "Env_kmh_to_mps speed_in_kmh = speed_in_kmh / 3.6 / 1609.344"

definition Env_kn_to_kmh :: "real \<Rightarrow> real" where
  "Env_kn_to_kmh speed_in_kn = speed_in_kn * 1.852"

definition Env_kmh_to_kn :: "real \<Rightarrow> real" where
  "Env_kmh_to_kn speed_in_kmh = speed_in_kmh / 1.852"

subsection \<open>Built-ins used by the toolkit\<close>

text \<open>
  \<^verbatim>\<open>min(iterable)\<close>: the first least element of the iterable, \<^verbatim>\<open>ValueError\<close> when it is
  empty. Tuples are compared lexicographically, which is the order of
  \<open>HOL-Library.Product_Lexorder\<close>.
\<close>

fun min_from :: "'a::linorder \<Rightarrow> 'a list \<Rightarrow> 'a" where
  "min_from best [] = best"
| "min_from best (x # xs) = min_from (if x < best then x else best) xs"

definition py_min :: "'a::linorder list \<Rightarrow> exc + 'a" where
  "py_min xs =
     (case xs of
        [] \<Rightarrow> Inl (ValueError ''min() arg is an empty sequence'')
      | x # ys \<Rightarrow> Inr (min_from x ys))"

text \<open>\<^verbatim>\<open>xs[i]\<close>: a negative index counts from the end, an index out of range raises.\<close>

definition py_index :: "'a list \<Rightarrow> int \<Rightarrow> exc + 'a" where
  "py_index xs i =
     (if 0 \<le> i \<and> i < int (length xs) then Inr (xs ! nat i)
      else if i < 0 \<and> - int (length xs) \<le> i then Inr (xs ! nat (int (length xs) + i))
      else Inl (IndexError ''list index out of range''))"


text \<open>\<^verbatim>\<open>str.lower()\<close> on code points below 256.\<close>

definition char_lower :: "char \<Rightarrow> char" where
  "char_lower c =
     (let n = (of_char c :: nat)
      in if (65 \<le> n \<and> n \<le> 90) \<or> (192 \<le> n \<and> n \<le> 222 \<and> n \<noteq> 215)
         then char_of (n + 32) else c)"

definition str_lower :: "string \<Rightarrow> string" where
  "str_lower s = map char_lower s"

subsection \<open>Wind speed to Beaufort number\<close>

text \<open>The table of \<^verbatim>\<open>ms_to_bft\<close>; \<^verbatim>\<open>Env.mps_to_beaufort\<close> repeats it literally.\<close>

definition bft_table :: "(real \<times> int) list" where
  "bft_table =
     [(0.3, 0), (1.6, 1), (3.4, 2), (5.5, 3), (8.0, 4), (10.8, 5), (13.9, 6),
      (17.2, 7), (20.8, 8), (24.5, 9), (28.5, 10), (32.7, 11), (999, 12)]"

text \<open>
  \<^verbatim>\<open>ms_to_bft\<close>: the handler \<^verbatim>\<open>except Exception\<close> takes every exception of the body, logs
  and returns \<open>-1\<close>.
\<close>

definition ms_to_bft :: "real \<Rightarrow> (exc + int) \<times> log_entry list" where
  "ms_to_bft speed =
     (case py_min (filter (\<lambda>x. fst x \<ge> speed) bft_table) of
        Inr row \<Rightarrow> (Inr (snd row), [])
      | Inl e \<Rightarrow>
          (Inr (- 1),
           [Log ERROR
              (''ms_to_bft: Cannot translate wind-speed to beaufort-number, '' @
               ''received speed='{speed}' - Exception {e}'')
              [PFloat speed, PStr (exc_str e)]]))"

definition kmh_to_bft :: "real \<Rightarrow> (exc + int) \<times> log_entry list" where
  "kmh_to_bft speed = ms_to_bft (kmh_to_ms speed)"

text \<open>
  \<^verbatim>\<open>Env.mps_to_beaufort\<close>: the handler is \<^verbatim>\<open>except ValueError\<close>, any other exception
  passes; the sentinel is \<^verbatim>\<open>None\<close>.
\<close>

definition Env_mps_to_beaufort :: "real \<Rightarrow> (exc + int option) \<times> log_entry list" where
  "Env_mps_to_beaufort speed_in_mps =
     (case py_min (filter (\<lambda>x. fst x \<ge> speed_in_mps) bft_table) of
        Inr row \<Rightarrow> (Inr (Some (snd row)), [])
      | Inl (ValueError msg) \<Rightarrow>
          (Inr None,
           [Log ERROR
              (''Cannot translate wind-speed to beaufort-number, received: '{speed_in_mps}'' @
               [CHR 0x27])
              [PFloat speed_in_mps]])
      | Inl e \<Rightarrow> (Inl e, []))"

subsection \<open>Beaufort number to text\<close>

definition beaufort_descriptions_de :: "string list" where
  "beaufort_descriptions_de =
     [''Windstille'', ''leiser Zug'', ''leichte Brise'', ''schwacher Wind'',
      ''m'' @ [CHR 0xE4, CHR 0xDF] @ ''iger Wind'', ''frischer Wind'', ''starker Wind'',
      ''steifer Wind'', ''st'' @ [CHR 0xFC] @ ''rmischer Wind'', ''Sturm'',
      ''schwerer Sturm'', ''orkanartiger Sturm'', ''Orkan'']"

definition beaufort_descriptions_en :: "string list" where
  "beaufort_descriptions_en =
     [''Calm'', ''Light air'', ''Light breeze'', ''Gentle breeze'', ''Moderate breeze'',
      ''Fresh breeze'', ''Strong breeze'', ''High wind'', ''Fresh Gale'', ''Strong Gale'',
      ''Storm'', ''Violent storm'', ''Hurricane-force'']"

text \<open>
  \<^verbatim>\<open>bft_to_text(bft, language='de')\<close>. The test \<^verbatim>\<open>type(bft) is not int\<close> lets only a value
  of exact type \<^verbatim>\<open>int\<close> pass (not a \<^verbatim>\<open>bool\<close>, not a \<^verbatim>\<open>float\<close>).
\<close>

definition bft_to_text :: "pyval \<Rightarrow> string \<Rightarrow> (exc + string) \<times> log_entry list" where
  "bft_to_text bft language =
     (case bft of
        PInt n \<Rightarrow>
          if n < 0 \<or> n > 12
          then (Inr [],
                [Log ERROR (''speed_in_bft is out of scale: '{bft}'' @ [CHR 0x27]) [bft]])
          else if str_lower language = ''de''
          then (py_index beaufort_descriptions_de n, [])
          else (py_index beaufort_descriptions_en n, [])
      | _ \<Rightarrow>
          (Inr [],
           [Log ERROR (''speed_in_bft is not given as int: '{bft}'' @ [CHR 0x27]) [bft]]))"

subsection \<open>Compass bearing to direction label\<close>







text \<open>
  The argument \<^verbatim>\<open>deg\<close> is a number: an \<^verbatim>\<open>int\<close> or a finite \<^verbatim>\<open>float\<close>. \<^verbatim>\<open>deg % 360\<close> on an
  \<^verbatim>\<open>int\<close> is the exact integer remainder in \<open>0..359\<close>, which the following \<^verbatim>\<open>+\<close> converts
  to the float of the same value.
\<close>

datatype number = IntNum int | FloatNum real





subsection \<open>Distance conversions\<close>

text \<open>The module-level helpers \<^verbatim>\<open>_miles_to_meter\<close>, \<^verbatim>\<open>_nauticalmiles_to_meter\<close>,
  \<^verbatim>\<open>_meter_to_miles\<close> and \<^verbatim>\<open>_meter_to_nauticalmiles\<close>.\<close>

definition miles_to_meter :: "real \<Rightarrow> real" where
  "miles_to_meter miles = miles * 1609.344"

definition nauticalmiles_to_meter :: "real \<Rightarrow> real" where
  "nauticalmiles_to_meter miles = miles * 1852.0"

definition meter_to_miles :: "real \<Rightarrow> real" where
  "meter_to_miles meter = meter / 1609.344"

definition meter_to_nauticalmiles :: "real \<Rightarrow> real" where
  "meter_to_nauticalmiles meter = meter / 1852.0"

subsection \<open>The module namespace and \<^verbatim>\<open>Env.kmh_to_beaufort\<close>\<close>

text \<open>
  The body of a method resolves a bare name in the enclosing function scopes, then in the
  globals of its module, then in the built-ins; the names of the class body are not in
  scope. \<^verbatim>\<open>Env.kmh_to_beaufort\<close> is a static method whose body is
  \<^verbatim>\<open>return mps_to_beaufort(kmh_to_mps(speed_in_kmh))\<close>, so both names are looked up in the
  module namespace when the call runs, the callee first.

  \<open>env_globals\<close> lists every name that \<^verbatim>\<open>lib/env/__init__.py\<close> binds at module level, in
  the order of the file, with the object bound to it: a function of one number (\<open>GFun\<close>,
  applied to a \<^verbatim>\<open>float\<close>) or an object that is not callable (\<open>GObj\<close>). Beside them a
  module namespace only holds the dunder names of the import system (\<^verbatim>\<open>__name__\<close>,
  \<^verbatim>\<open>__doc__\<close>, \<^verbatim>\<open>__file__\<close>, ...), and no built-in is called \<^verbatim>\<open>mps_to_beaufort\<close>.
\<close>

datatype gval = GFun "real \<Rightarrow> (exc + pyval) \<times> log_entry list" | GObj

definition returns_float :: "(real \<Rightarrow> real) \<Rightarrow> real \<Rightarrow> (exc + pyval) \<times> log_entry list" where
  "returns_float f x = (Inr (PFloat (f x)), [])"

definition returns_int ::
  "(real \<Rightarrow> (exc + int) \<times> log_entry list) \<Rightarrow> real \<Rightarrow> (exc + pyval) \<times> log_entry list" where
  "returns_int f x = (case f x of (Inl e, l) \<Rightarrow> (Inl e, l) | (Inr n, l) \<Rightarrow> (Inr (PInt n), l))"

definition returns_str ::
  "(real \<Rightarrow> (exc + string) \<times> log_entry list) \<Rightarrow> real \<Rightarrow> (exc + pyval) \<times> log_entry list" where
  "returns_str f x = (case f x of (Inl e, l) \<Rightarrow> (Inl e, l) | (Inr s, l) \<Rightarrow> (Inr (PStr s), l))"

text \<open>
  \<^verbatim>\<open>Env(x)\<close> on a number: \<^verbatim>\<open>__init__\<close> reads \<^verbatim>\<open>smarthome._logger\<close>, which a \<^verbatim>\<open>float\<close> does
  not have.
\<close>

definition Env_init :: "real \<Rightarrow> (exc + pyval) \<times> log_entry list" where
  "Env_init smarthome =
     (Inl (AttributeError
             ([CHR 0x27] @ ''float' object has no attribute '_logger'' @ [CHR 0x27])), [])"

definition env_globals :: "(string \<times> gval) list" where
  "env_globals =
     [(''logging'', GObj),
      (''_logger'', GObj),
      (''_mile'', GObj),
      (''_nautical_mile'', GObj),
      (''kn_to_kmh'', GFun (returns_float kn_to_kmh)),
      (''kmh_to_kn'', GFun (returns_float kmh_to_kn)),
      (''ms_to_kmh'', GFun (returns_float ms_to_kmh)),
      (''kmh_to_ms'', GFun (returns_float kmh_to_ms)),
      (''mps_to_kmh'', GFun (returns_float mps_to_kmh)),
      (''kmh_to_mps'', GFun (returns_float kmh_to_mps)),
      (''ms_to_bft'', GFun (returns_int ms_to_bft)),
      (''kmh_to_bft'', GFun (returns_int kmh_to_bft)),
      (''bft_to_text'', GFun (returns_str (\<lambda>x. bft_to_text (PFloat x) ''de''))),
      (''_miles_to_meter'', GFun (returns_float miles_to_meter)),
      (''_nauticalmiles_to_meter'', GFun (returns_float nauticalmiles_to_meter)),
      (''_meter_to_miles'', GFun (returns_float meter_to_miles)),
      (''_meter_to_nauticalmiles'', GFun (returns_float meter_to_nauticalmiles)),
      (''Env'', GFun Env_init)]"

definition call_global :: "gval \<Rightarrow> real \<Rightarrow> (exc + pyval) \<times> log_entry list" where
  "call_global g x =
     (case g of
        GFun f \<Rightarrow> f x
      | GObj \<Rightarrow> (Inl (TypeError ''object is not callable''), []))"

definition Env_kmh_to_beaufort :: "real \<Rightarrow> (exc + pyval) \<times> log_entry list" where
  "Env_kmh_to_beaufort speed_in_kmh =
     (case map_of env_globals ''mps_to_beaufort'' of
        None \<Rightarrow> (Inl (NameError (''name 'mps_to_beaufort' is not defined'')), [])
      | Some f \<Rightarrow> call_global f (kmh_to_mps speed_in_kmh))"

section \<open>User-module loader: \<^verbatim>\<open>lib/userfunctions.py\<close>\<close>

subsection \<open>Strings and paths\<close>

text \<open>\<^verbatim>\<open>s.endswith(suffix)\<close>.\<close>

definition endswith :: "string \<Rightarrow> string \<Rightarrow> bool" where
  "endswith s suffix =
     (length suffix \<le> length s \<and> drop (length s - length suffix) s = suffix)"

text \<open>\<^verbatim>\<open>s.split(sep)\<close> for a separator of one character: never the empty list.\<close>

fun split_char :: "char \<Rightarrow> string \<Rightarrow> string list" where
  "split_char sep [] = [[]]"
| "split_char sep (c # cs) =
     (if c = sep then [] # split_char sep cs
      else (case split_char sep cs of
              [] \<Rightarrow> [[c]]
            | p # ps \<Rightarrow> (c # p) # ps))"

text \<open>\<^verbatim>\<open>os.path.join(a, b)\<close> of \<^verbatim>\<open>posixpath\<close>, for two components.\<close>

definition os_path_join :: "string \<Rightarrow> string \<Rightarrow> string" where
  "os_path_join a b =
     (if b \<noteq> [] \<and> hd b = CHR ''/'' then b
      else if a = [] \<or> last a = CHR ''/'' then a @ b
      else a @ ''/'' @ b)"

subsection \<open>State of the loader and of its runtime\<close>

text \<open>
  A module object is a mutable attribute dictionary living at a reference of the object
  store; two names bound to one reference see each other's writes. Attribute access on
  a module object is the plain dictionary access (no module-level \<^verbatim>\<open>__getattr__\<close>).

  The loader reaches the world outside its file through \<^verbatim>\<open>os\<close>, \<^verbatim>\<open>importlib\<close> and the
  built-ins; they are the \<open>runtime\<close>, a parameter of every operation:
  \<^item> \<open>os_listdir\<close> may raise;
  \<^item> \<open>importlib_import_module\<close> of a qualified name, run on the object store, raises or
    returns the reference of the module object, and leaves the store as the import made
    it (the module's code has run);
  \<^item> \<open>importlib_reload\<close> of a module object raises (\<open>Some e\<close>) or succeeds (\<open>None\<close>), and
    leaves the store as the re-execution made it;
  \<^item> \<open>builtin_names\<close> are the names that the interpreter's \<^verbatim>\<open>builtins\<close> module binds.
  Exceptions are the subclasses of \<^verbatim>\<open>Exception\<close>.

  The loader's own state is the globals of \<^verbatim>\<open>lib/userfunctions.py\<close>: \<^verbatim>\<open>_func_dir\<close>,
  \<^verbatim>\<open>_user_modules\<close>, \<^verbatim>\<open>_uf_version\<close>, \<^verbatim>\<open>_uf_description\<close>, and \<open>modules\<close>, the further globals
  that \<^verbatim>\<open>import_user_module\<close> has created with \<^verbatim>\<open>globals()[m] = ...\<close>, as a dictionary
  from names to module objects; \<open>logged\<close> collects the records passed to \<^verbatim>\<open>_logger\<close>.
\<close>

type_synonym ref = nat

type_synonym module_obj = "string \<rightharpoonup> pyval"

type_synonym store = "ref \<Rightarrow> module_obj"

record runtime =
  os_getcwd :: string
  os_path_isdir :: "string \<Rightarrow> bool"
  os_listdir :: "string \<Rightarrow> exc + string list"
  importlib_import_module :: "string \<Rightarrow> store \<Rightarrow> (exc + ref) \<times> store"
  importlib_reload :: "ref \<Rightarrow> store \<Rightarrow> exc option \<times> store"
  builtin_names :: "string list"

record loader =
  func_dir :: "string option"
  user_modules :: "string list"
  uf_version :: pyval
  uf_description :: pyval
  modules :: "(string \<times> ref) list"
  objects :: store
  logged :: "log_entry list"

definition uf_subdir :: string where
  "uf_subdir = ''functions''"

subsection \<open>Names in executed text\<close>

text \<open>
  The loader splices a module name into Python source and runs the text with \<^verbatim>\<open>exec\<close>.
  \<^verbatim>\<open>exec\<close> is called without namespaces, so the text runs with the globals of
  \<^verbatim>\<open>lib/userfunctions.py\<close> and with the locals of the calling function: a name of the text
  is looked up in those locals first, then in the globals, then in the built-ins. And
  \<^verbatim>\<open>globals()[m] = ...\<close> writes into the namespace that holds the loader's own functions
  and variables.

  So what the loader does with a name depends on the name. \<open>plain_name\<close> delimits the
  names for which the embedding says what happens: an ASCII identifier (the text
  \<^verbatim>\<open>{m}._VERSION\<close> then parses as an attribute of the name \<^verbatim>\<open>m\<close>) that is not a keyword, not
  a global of \<^verbatim>\<open>lib/userfunctions.py\<close> (\<open>loader_globals\<close>, and the names beginning with two
  underscores that the import system puts into every module), not a built-in, and not
  \<^verbatim>\<open>importlib\<close>, which both calling functions bind locally to the library module. For any
  other name the operations of the embedding return \<open>None\<close>: the name is outside the
  embedding, nothing is said about it. The locals that hold strings (\<^verbatim>\<open>m\<close>, \<^verbatim>\<open>modulename\<close>,
  \<^verbatim>\<open>userlib\<close>) are plain names and are modelled.
\<close>

definition python_keywords :: "string list" where
  "python_keywords =
     [''False'', ''None'', ''True'', ''and'', ''as'', ''assert'', ''async'', ''await'',
      ''break'', ''class'', ''continue'', ''def'', ''del'', ''elif'', ''else'', ''except'',
      ''finally'', ''for'', ''from'', ''global'', ''if'', ''import'', ''in'', ''is'',
      ''lambda'', ''nonlocal'', ''not'', ''or'', ''pass'', ''raise'', ''return'', ''try'',
      ''while'', ''with'', ''yield'']"

definition loader_globals :: "string list" where
  "loader_globals =
     [''os'', ''logging'', ''_logger'', ''_uf_subdir'', ''_func_dir'', ''_user_modules'',
      ''import_user_module'', ''_uf_version'', ''_uf_description'', ''init_lib'',
      ''get_uf_dir'', ''reload'', ''reload_all'', ''list_userlib_files'']"

definition ident_start :: "char \<Rightarrow> bool" where
  "ident_start c =
     (let n = (of_char c :: nat)
      in (65 \<le> n \<and> n \<le> 90) \<or> (97 \<le> n \<and> n \<le> 122) \<or> n = 95)"

definition ident_char :: "char \<Rightarrow> bool" where
  "ident_char c = (let n = (of_char c :: nat) in ident_start c \<or> (48 \<le> n \<and> n \<le> 57))"

definition is_identifier :: "string \<Rightarrow> bool" where
  "is_identifier s = (case s of [] \<Rightarrow> False | c # cs \<Rightarrow> ident_start c \<and> list_all ident_char cs)"

definition plain_name :: "runtime \<Rightarrow> string \<Rightarrow> bool" where
  "plain_name rt n =
     (is_identifier n \<and> take 2 n \<noteq> ''__'' \<and> n \<notin> set python_keywords
      \<and> n \<notin> set loader_globals \<and> n \<notin> set (builtin_names rt) \<and> n \<noteq> ''importlib'')"

text \<open>
  The globals that earlier imports have created are all plain names: none of them has
  replaced a global or shadowed a built-in that the loader's code uses.
\<close>

definition namespace_intact :: "runtime \<Rightarrow> loader \<Rightarrow> bool" where
  "namespace_intact rt st = list_all (plain_name rt) (map fst (modules st))"

text \<open>
  What a name of the executed text denotes: a string held by a local of the calling
  function, or a module object. \<open>load_name\<close> looks a plain name up, given the string-valued
  locals of the caller; the message of the \<^verbatim>\<open>NameError\<close> is the interpreter's.
\<close>

datatype obj = Str string | Module ref

definition name_error_message :: "string \<Rightarrow> string" where
  "name_error_message n = concat [''name '', [CHR 0x27], n, [CHR 0x27], '' is not defined'']"

definition load_name :: "(string \<times> obj) list \<Rightarrow> loader \<Rightarrow> string \<Rightarrow> exc + obj" where
  "load_name locals st n =
     (case map_of locals n of
        Some v \<Rightarrow> Inr v
      | None \<Rightarrow>
          (case map_of (modules st) n of
             Some r \<Rightarrow> Inr (Module r)
           | None \<Rightarrow> Inl (NameError (name_error_message n))))"

text \<open>
  \<^verbatim>\<open>{m}.ATTR\<close> read and \<^verbatim>\<open>{m}.ATTR = v\<close> written inside \<^verbatim>\<open>exec\<close>, for the attributes
  \<^verbatim>\<open>_VERSION\<close> and \<^verbatim>\<open>_DESCRIPTION\<close>. A \<^verbatim>\<open>str\<close> has neither and takes no new attribute.
\<close>

definition str_has_no_attribute :: "string \<Rightarrow> string" where
  "str_has_no_attribute attr =
     [CHR 0x27] @ ''str' object has no attribute '' @ [CHR 0x27] @ attr @ [CHR 0x27]"

definition getattr_exec ::
  "(string \<times> obj) list \<Rightarrow> loader \<Rightarrow> string \<Rightarrow> string \<Rightarrow> exc + pyval" where
  "getattr_exec locals st m attr =
     (case load_name locals st m of
        Inl e \<Rightarrow> Inl e
      | Inr (Str s) \<Rightarrow> Inl (AttributeError (str_has_no_attribute attr))
      | Inr (Module r) \<Rightarrow>
          (case objects st r attr of
             None \<Rightarrow> Inl (AttributeError (''module has no attribute '' @ attr))
           | Some v \<Rightarrow> Inr v))"

definition setattr_exec ::
  "(string \<times> obj) list \<Rightarrow> loader \<Rightarrow> string \<Rightarrow> string \<Rightarrow> pyval \<Rightarrow> exc option \<times> loader" where
  "setattr_exec locals st m attr v =
     (case load_name locals st m of
        Inl e \<Rightarrow> (Some e, st)
      | Inr (Str s) \<Rightarrow> (Some (AttributeError (str_has_no_attribute attr)), st)
      | Inr (Module r) \<Rightarrow>
          (None, st\<lparr>objects := (objects st)(r := (objects st r)(attr \<mapsto> v))\<rparr>))"

subsection \<open>\<^verbatim>\<open>import_user_module\<close>\<close>

text \<open>
  The first \<^verbatim>\<open>exec\<close> sits in \<^verbatim>\<open>try ... except Exception\<close>. Each metadata read sits in a
  \<^verbatim>\<open>try\<close> whose bare \<^verbatim>\<open>except\<close> runs the write; the write itself is not guarded, so an
  exception of the write leaves \<^verbatim>\<open>import_user_module\<close>. The result carries the state in
  both cases. When the texts run, the locals of \<^verbatim>\<open>import_user_module\<close> are \<^verbatim>\<open>m\<close>,
  \<^verbatim>\<open>importlib\<close> and \<^verbatim>\<open>modulename\<close>.
\<close>

definition read_or_default_version ::
  "(string \<times> obj) list \<Rightarrow> loader \<Rightarrow> string \<Rightarrow> exc option \<times> loader" where
  "read_or_default_version locals st m =
     (case getattr_exec locals st m ''_VERSION'' of
        Inr v \<Rightarrow> (None, st\<lparr>uf_version := v\<rparr>)
      | Inl e \<Rightarrow> setattr_exec locals st m ''_VERSION'' (uf_version st))"

definition read_or_default_description ::
  "(string \<times> obj) list \<Rightarrow> loader \<Rightarrow> string \<Rightarrow> exc option \<times> loader" where
  "read_or_default_description locals st m =
     (case getattr_exec locals st m ''_DESCRIPTION'' of
        Inr v \<Rightarrow> (None, st\<lparr>uf_description := v\<rparr>)
      | Inl e \<Rightarrow> setattr_exec locals st m ''_DESCRIPTION'' (uf_description st))"

definition import_user_module ::
  "runtime \<Rightarrow> string \<Rightarrow> loader \<Rightarrow> ((exc + bool) \<times> loader) option" where
  "import_user_module rt m st =
     (if plain_name rt m \<and> namespace_intact rt st
      then Some
        (let modulename = uf_subdir @ ''.'' @ m;
             locals = [(''m'', Str m), (''modulename'', Str modulename)]
         in case importlib_import_module rt modulename (objects st) of
              (Inl e, h) \<Rightarrow>
                (Inr False,
                 st\<lparr>objects := h,
                    logged := logged st @
                      [Log ERROR ''Error importing userfunctions '{m}': {e}''
                         [PStr m, PStr (exc_str e)]]\<rparr>)
            | (Inr r, h) \<Rightarrow>
                (let st1 = st\<lparr>objects := h, modules := AList.update m r (modules st)\<rparr>;
                     st2 = st1\<lparr>uf_version := PStr ''?.?.?''\<rparr>
                 in case read_or_default_version locals st2 m of
                      (Some e, st3) \<Rightarrow> (Inl e, st3)
                    | (None, st3) \<Rightarrow>
                        (let st4 = st3\<lparr>uf_description := PStr ''?''\<rparr>
                         in case read_or_default_description locals st4 m of
                              (Some e, st5) \<Rightarrow> (Inl e, st5)
                            | (None, st5) \<Rightarrow>
                                (Inr True,
                                 st5\<lparr>logged := logged st5 @
                                   [Log NOTICE
                                      (''Imported userfunctions from '{m}' '' @
                                       ''v{_uf_version} - {_uf_description}'')
                                      [PStr m, uf_version st5, uf_description st5]]\<rparr>))))
      else None)"

subsection \<open>\<^verbatim>\<open>init_lib\<close>\<close>

text \<open>The loop \<^verbatim>\<open>for m in _user_modules: import_user_module(m)\<close>; the result of each
  import is dropped, an exception of an import ends the loop and leaves \<^verbatim>\<open>init_lib\<close>.\<close>

fun import_all :: "runtime \<Rightarrow> string list \<Rightarrow> loader \<Rightarrow> ((exc + unit) \<times> loader) option" where
  "import_all rt [] st = Some (Inr (), st)"
| "import_all rt (m # ms) st =
     (case import_user_module rt m st of
        None \<Rightarrow> None
      | Some (Inl e, st') \<Rightarrow> Some (Inl e, st')
      | Some (Inr ok, st') \<Rightarrow> import_all rt ms st')"

text \<open>The scan of \<^verbatim>\<open>init_lib\<close>: the names collected from a directory listing.\<close>

definition scan_names :: "string list \<Rightarrow> string list" where
  "scan_names wrk = map (\<lambda>f. hd (split_char CHR ''.'' f)) (filter (\<lambda>f. endswith f ''.py'') wrk)"

definition init_lib ::
  "runtime \<Rightarrow> string option \<Rightarrow> loader \<Rightarrow> ((exc + unit) \<times> loader) option" where
  "init_lib rt shng_base_dir st =
     (if namespace_intact rt st
      then
        (let base_dir = (case shng_base_dir of Some d \<Rightarrow> d | None \<Rightarrow> os_getcwd rt);
             fd = os_path_join base_dir uf_subdir;
             st1 = st\<lparr>func_dir := Some fd\<rparr>
         in case (if os_path_isdir rt fd
                  then (case os_listdir rt fd of
                          Inl e \<Rightarrow> Inl e
                        | Inr wrk \<Rightarrow> Inr (scan_names wrk))
                  else Inr []) of
              Inl e \<Rightarrow> Some (Inl e, st1)
            | Inr found \<Rightarrow>
                (let st2 = st1\<lparr>user_modules := sort found\<rparr>
                 in import_all rt (user_modules st2) st2))
      else None)"

subsection \<open>\<^verbatim>\<open>reload\<close>\<close>

text \<open>
  \<^verbatim>\<open>exec(f"importlib.reload({userlib})")\<close>, run with the locals \<^verbatim>\<open>userlib\<close> and \<^verbatim>\<open>importlib\<close>
  of \<^verbatim>\<open>reload\<close>: an unbound name raises \<^verbatim>\<open>NameError\<close> before \<^verbatim>\<open>importlib.reload\<close> is called,
  and \<^verbatim>\<open>importlib.reload\<close> refuses a \<^verbatim>\<open>str\<close>.
\<close>

definition exec_reload :: "runtime \<Rightarrow> string \<Rightarrow> loader \<Rightarrow> exc option \<times> loader" where
  "exec_reload rt userlib st =
     (case load_name [(''userlib'', Str userlib)] st userlib of
        Inl e \<Rightarrow> (Some e, st)
      | Inr (Str s) \<Rightarrow> (Some (TypeError ''reload() argument must be a module''), st)
      | Inr (Module r) \<Rightarrow>
          (case importlib_reload rt r (objects st) of
             (eo, h) \<Rightarrow> (eo, st\<lparr>objects := h\<rparr>)))"

text \<open>
  \<^verbatim>\<open>reload(userlib)\<close>. The membership test needs no executed text, so a name that is not
  registered is answered whatever the name is. The handler compares \<^verbatim>\<open>str(e)\<close> with the
  f-string \<^verbatim>\<open>name '{userlib}' is not defined\<close>.
\<close>

definition reload ::
  "runtime \<Rightarrow> string \<Rightarrow> loader \<Rightarrow> ((exc + bool) \<times> loader) option" where
  "reload rt userlib st =
     (if \<not> namespace_intact rt st then None
      else if userlib \<in> set (user_modules st)
      then (if \<not> plain_name rt userlib then None
            else (case exec_reload rt userlib st of
              (Some e, st1) \<Rightarrow>
                if exc_str e = ''name '' @ [CHR 0x27] @ userlib @ [CHR 0x27] @ '' is not defined''
                then (case import_user_module rt userlib
                             (st1\<lparr>logged := logged st1 @
                                [Log WARNING
                                   (''Error reloading userfunctions '{userlib}': Module is '' @
                                    ''not loaded, trying to newly import userfunctions '' @
                                    [CHR 0x27] @ ''{userlib}' instead'')
                                   [PStr userlib, PStr userlib]]\<rparr>) of
                        None \<Rightarrow> None
                      | Some (Inl e', st2) \<Rightarrow> Some (Inl e', st2)
                      | Some (Inr ok, st2) \<Rightarrow> Some (Inr (if ok then True else False), st2))
                else Some (Inr False,
                          st1\<lparr>logged := logged st1 @
                            [Log ERROR
                               (''Error reloading userfunctions '{userlib}': {e} - '' @
                                ''old version of '{userlib}' is still active'')
                               [PStr userlib, PStr (exc_str e), PStr userlib]]\<rparr>)
            | (None, st1) \<Rightarrow>
                Some (Inr True,
                     st1\<lparr>logged := logged st1 @
                       [Log NOTICE ''Reloaded userfunctions uf.{userlib}'' [PStr userlib]]\<rparr>)))
      else Some (Inr False,
                st\<lparr>logged := logged st @
                  [Log ERROR ''uf.reload: Userfunction uf.{userlib} do not exist''
                     [PStr userlib]]\<rparr>))"

subsection \<open>Initial state, and what \<^verbatim>\<open>init_lib\<close> sees of the directory\<close>

text \<open>
  The globals of the loader when \<^verbatim>\<open>lib/userfunctions.py\<close> has just been imported:
  \<^verbatim>\<open>_func_dir = None\<close>, \<^verbatim>\<open>_user_modules = []\<close>, no user module bound, nothing logged
  (\<^verbatim>\<open>_uf_version\<close> and \<^verbatim>\<open>_uf_description\<close> do not exist yet; they are written before they
  are read).
\<close>

definition initial_loader :: loader where
  "initial_loader =
     \<lparr>func_dir = None, user_modules = [], uf_version = PNone, uf_description = PNone,
      modules = [], objects = (\<lambda>r. Map.empty), logged = []\<rparr>"

text \<open>
  The file names directly under \<^verbatim>\<open><base_dir>/functions\<close> as \<^verbatim>\<open>init_lib\<close> reads them:
  the listing of that path when it is a directory, nothing otherwise.
\<close>

definition files_seen :: "runtime \<Rightarrow> string option \<Rightarrow> string list" where
  "files_seen rt shng_base_dir =
     (let fd = os_path_join (case shng_base_dir of Some d \<Rightarrow> d | None \<Rightarrow> os_getcwd rt)
                 uf_subdir
      in if os_path_isdir rt fd
         then (case os_listdir rt fd of Inr wrk \<Rightarrow> wrk | Inl e \<Rightarrow> [])
         else [])"

subsection \<open>Sample runtimes\<close>

text \<open>The built-in names of CPython 3.11 that do not begin with two underscores.\<close>

definition cpython_builtins :: "string list" where
  "cpython_builtins =
     [''ArithmeticError'', ''AssertionError'', ''AttributeError'', ''BaseException'',
      ''BaseExceptionGroup'', ''BlockingIOError'', ''BrokenPipeError'', ''BufferError'',
      ''BytesWarning'', ''ChildProcessError'', ''ConnectionAbortedError'',
      ''ConnectionError'', ''ConnectionRefusedError'', ''ConnectionResetError'',
      ''DeprecationWarning'', ''EOFError'', ''Ellipsis'', ''EncodingWarning'',
      ''EnvironmentError'', ''Exception'', ''ExceptionGroup'', ''False'',
      ''FileExistsError'', ''FileNotFoundError'', ''FloatingPointError'', ''FutureWarning'',
      ''GeneratorExit'', ''IOError'', ''ImportError'', ''ImportWarning'',
      ''IndentationError'', ''IndexError'', ''InterruptedError'', ''IsADirectoryError'',
      ''KeyError'', ''KeyboardInterrupt'', ''LookupError'', ''MemoryError'',
      ''ModuleNotFoundError'', ''NameError'', ''None'', ''NotADirectoryError'',
      ''NotImplemented'', ''NotImplementedError'', ''OSError'', ''OverflowError'',
      ''PendingDeprecationWarning'', ''PermissionError'', ''ProcessLookupError'',
      ''RecursionError'', ''ReferenceError'', ''ResourceWarning'', ''RuntimeError'',
      ''RuntimeWarning'', ''StopAsyncIteration'', ''StopIteration'', ''SyntaxError'',
      ''SyntaxWarning'', ''SystemError'', ''SystemExit'', ''TabError'', ''TimeoutError'',
      ''True'', ''TypeError'', ''UnboundLocalError'', ''UnicodeDecodeError'',
      ''UnicodeEncodeError'', ''UnicodeError'', ''UnicodeTranslateError'',
      ''UnicodeWarning'', ''UserWarning'', ''ValueError'', ''Warning'',
      ''ZeroDivisionError'', ''abs'', ''aiter'', ''all'', ''anext'', ''any'', ''ascii'',
      ''bin'', ''bool'', ''breakpoint'', ''bytearray'', ''bytes'', ''callable'', ''chr'',
      ''classmethod'', ''compile'', ''complex'', ''copyright'', ''credits'', ''delattr'',
      ''dict'', ''dir'', ''divmod'', ''enumerate'', ''eval'', ''exec'', ''exit'', ''filter'',
      ''float'', ''format'', ''frozenset'', ''getattr'', ''globals'', ''hasattr'', ''hash'',
      ''help'', ''hex'', ''id'', ''input'', ''int'', ''isinstance'', ''issubclass'', ''iter'',
      ''len'', ''license'', ''list'', ''locals'', ''map'', ''max'', ''memoryview'', ''min'',
      ''next'', ''object'', ''oct'', ''open'', ''ord'', ''pow'', ''print'', ''property'',
      ''quit'', ''range'', ''repr'', ''reversed'', ''round'', ''set'', ''setattr'', ''slice'',
      ''sorted'', ''staticmethod'', ''str'', ''sum'', ''super'', ''tuple'', ''type'', ''vars'',
      ''zip'']"

text \<open>
  A runtime with working directory \<^verbatim>\<open>/srv\<close> whose only directory is \<^verbatim>\<open>/srv/functions\<close>,
  holding the given files; importing and reloading are supplied.
\<close>

definition sample_runtime ::
  "string list \<Rightarrow> (string \<Rightarrow> store \<Rightarrow> (exc + ref) \<times> store) \<Rightarrow>
   (ref \<Rightarrow> store \<Rightarrow> exc option \<times> store) \<Rightarrow> runtime" where
  "sample_runtime files imp rel =
     \<lparr>os_getcwd = ''/srv'',
      os_path_isdir = (\<lambda>p. p = ''/srv/functions''),
      os_listdir =
        (\<lambda>p. if p = ''/srv/functions'' then Inr files
             else Inl (OtherException ''No such file or directory'')),
      importlib_import_module = imp,
      importlib_reload = rel,
      builtin_names = cpython_builtins\<rparr>"



definition reload_succeeds :: "ref \<Rightarrow> store \<Rightarrow> exc option \<times> store" where
  "reload_succeeds r h = (None, h)"

text \<open>An import that creates the module object at reference 0 with the given
  attributes.\<close>

definition import_creates :: "module_obj \<Rightarrow> string \<Rightarrow> store \<Rightarrow> (exc + ref) \<times> store" where
  "import_creates attrs q h = (Inr 0, h(0 := attrs))"






section \<open>Properties of the conversion toolkit\<close>

subsection \<open>Knots and km/h: the two surfaces\<close>

lemma kn_to_kmh_scale: "kn_to_kmh x = 1000 * Env_kn_to_kmh x"
  by (simp add: kn_to_kmh_def Env_kn_to_kmh_def nautical_mile_def)

lemma kmh_to_kn_scale: "Env_kmh_to_kn x = 1000 * kmh_to_kn x"
  by (simp add: kmh_to_kn_def Env_kmh_to_kn_def nautical_mile_def)

text \<open>
  Claim C1. The claim asks that the free functions \<^verbatim>\<open>kn_to_kmh\<close>, \<^verbatim>\<open>kmh_to_kn\<close> and the
  static methods \<^verbatim>\<open>Env.kn_to_kmh\<close>, \<^verbatim>\<open>Env.kmh_to_kn\<close> return the same results. The code
  does not: at one knot the free function returns 1852 (metres per hour) where its
  docstring promises km/h and the static method returns 1.852; at 1852 km/h the free
  function returns 1 where the static method returns 1000.
\<close>

theorem kn_kmh_surfaces_at_one_knot:
  "kn_to_kmh 1 = 1852 \<and> Env_kn_to_kmh 1 = 1852 / 1000 \<and> kn_to_kmh 1 \<noteq> Env_kn_to_kmh 1
   \<and> kmh_to_kn 1852 = 1 \<and> Env_kmh_to_kn 1852 = 1000 \<and> kmh_to_kn 1852 \<noteq> Env_kmh_to_kn 1852"
  by (simp add: kn_to_kmh_def Env_kn_to_kmh_def kmh_to_kn_def Env_kmh_to_kn_def
      nautical_mile_def)

subsection \<open>Wind speed to Beaufort number\<close>

lemma min_from_sorted: "sorted (x # xs) \<Longrightarrow> min_from x xs = x"
  by (induction xs) (auto simp: not_less)

lemma py_min_filter_sorted:
  "sorted xs \<Longrightarrow>
   py_min (filter P xs) =
     (case List.find P xs of
        None \<Rightarrow> Inl (ValueError ''min() arg is an empty sequence'')
      | Some x \<Rightarrow> Inr x)"
proof (induction xs)
  case Nil
  then show ?case by (simp add: py_min_def)
next
  case (Cons a xs)
  show ?case
  proof (cases "P a")
    case True
    from Cons.prems have "sorted (a # filter P xs)" by (auto intro: sorted_wrt_filter)
    then have "min_from a (filter P xs) = a" by (rule min_from_sorted)
    with True show ?thesis by (simp add: py_min_def)
  next
    case False
    with Cons show ?thesis by simp
  qed
qed

lemma find_Some_in_set: "List.find P xs = Some x \<Longrightarrow> x \<in> set xs"
  by (induction xs) (auto split: if_splits)

lemma bft_table_sorted: "sorted bft_table"
  by (simp add: bft_table_def)

lemma bft_row_find:
  "py_min (filter (\<lambda>x. fst x \<ge> s) bft_table) =
     (case List.find (\<lambda>x. s \<le> fst x) bft_table of
        None \<Rightarrow> Inl (ValueError ''min() arg is an empty sequence'')
      | Some x \<Rightarrow> Inr x)"
  using py_min_filter_sorted [OF bft_table_sorted] by simp

lemma find_threshold_least:
  "sorted (map fst tbl) \<Longrightarrow> List.find (\<lambda>x. s \<le> fst x) tbl = Some r \<Longrightarrow>
   r \<in> set tbl \<and> s \<le> fst r \<and> (\<forall>r' \<in> set tbl. s \<le> fst r' \<longrightarrow> fst r \<le> fst r')"
  by (induction tbl) (auto split: if_splits)

lemma find_threshold_mono:
  "sorted (map fst tbl) \<Longrightarrow> sorted (map snd tbl) \<Longrightarrow> s1 \<le> s2 \<Longrightarrow>
   List.find (\<lambda>x. s2 \<le> fst x) tbl = Some r2 \<Longrightarrow>
   \<exists>r1. List.find (\<lambda>x. s1 \<le> fst x) tbl = Some r1 \<and> snd r1 \<le> snd r2"
proof (induction tbl)
  case Nil
  then show ?case by simp
next
  case (Cons a tbl)
  show ?case
  proof (cases "s1 \<le> fst a")
    case True
    from Cons.prems(4) have "r2 \<in> set (a # tbl)"
      by (rule find_Some_in_set)
    with Cons.prems(2) have "snd a \<le> snd r2" by auto
    with True show ?thesis by simp
  next
    case False
    with Cons.prems(3) have "\<not> s2 \<le> fst a" by simp
    with False Cons show ?thesis by simp
  qed
qed

lemma bft_table_fst_sorted: "sorted (map fst bft_table)"
  by (simp add: bft_table_def)

lemma bft_table_snd_sorted: "sorted (map snd bft_table)"
  by (simp add: bft_table_def)

lemma bft_table_range: "r \<in> set bft_table \<Longrightarrow> 0 \<le> snd r \<and> snd r \<le> 12"
  by (auto simp: bft_table_def)

lemma bft_find_Some:
  assumes "s \<le> 999"
  shows "\<exists>r. List.find (\<lambda>x. s \<le> fst x) bft_table = Some r"
proof -
  have "(999, 12) \<in> set bft_table" by (simp add: bft_table_def)
  with assms have "\<exists>x. x \<in> set bft_table \<and> s \<le> fst x" by force
  then have "List.find (\<lambda>x. s \<le> fst x) bft_table \<noteq> None"
    by (simp add: find_None_iff)
  then show ?thesis by auto
qed

lemma bft_find_None:
  assumes "999 < s"
  shows "List.find (\<lambda>x. s \<le> fst x) bft_table = None"
  using assms by (simp add: bft_table_def)

lemma ms_to_bft_row:
  "List.find (\<lambda>x. s \<le> fst x) bft_table = Some r \<Longrightarrow> ms_to_bft s = (Inr (snd r), [])"
  by (simp add: ms_to_bft_def bft_row_find)

text \<open>
  Claim C2. For every speed \<open>s\<close> with \<open>0 \<le> s \<le> 999\<close>, \<^verbatim>\<open>ms_to_bft(s)\<close> returns, without
  logging, the Beaufort number of the row of the 13-row table whose threshold is the
  smallest one that is at least \<open>s\<close>; in particular \<^verbatim>\<open>ms_to_bft(0.3) = 0\<close>,
  \<^verbatim>\<open>ms_to_bft(0.31) = 1\<close> and \<^verbatim>\<open>ms_to_bft(999) = 12\<close>.
\<close>

theorem ms_to_bft_smallest_threshold:
  assumes "0 \<le> s" and "s \<le> 999"
  shows "(\<exists>t b. (t, b) \<in> set bft_table \<and> s \<le> t
            \<and> (\<forall>(t', b') \<in> set bft_table. s \<le> t' \<longrightarrow> t \<le> t')
            \<and> ms_to_bft s = (Inr b, []))
         \<and> ms_to_bft 0.3 = (Inr 0, []) \<and> ms_to_bft 0.31 = (Inr 1, [])
         \<and> ms_to_bft 999 = (Inr 12, [])"
proof -
  from assms(2) obtain r where r: "List.find (\<lambda>x. s \<le> fst x) bft_table = Some r"
    using bft_find_Some by blast
  obtain t b where tb: "r = (t, b)" by (cases r)
  from find_threshold_least [OF bft_table_fst_sorted r] tb
  have "(t, b) \<in> set bft_table" "s \<le> t"
    "\<forall>(t', b') \<in> set bft_table. s \<le> t' \<longrightarrow> t \<le> t'"
    by auto
  moreover from ms_to_bft_row [OF r] tb have "ms_to_bft s = (Inr b, [])" by simp
  ultimately have first: "\<exists>t b. (t, b) \<in> set bft_table \<and> s \<le> t
            \<and> (\<forall>(t', b') \<in> set bft_table. s \<le> t' \<longrightarrow> t \<le> t')
            \<and> ms_to_bft s = (Inr b, [])" by blast
  have e1: "ms_to_bft 0.3 = (Inr 0, [])"
    unfolding ms_to_bft_def bft_row_find by (simp add: bft_table_def)
  have e2: "ms_to_bft 0.31 = (Inr 1, [])"
    unfolding ms_to_bft_def bft_row_find by (simp add: bft_table_def)
  have e3: "ms_to_bft 999 = (Inr 12, [])"
    unfolding ms_to_bft_def bft_row_find by (simp add: bft_table_def)
  from first e1 e2 e3 show ?thesis by blast
qed

text \<open>The statement of C2 at the speed 5 m/s.\<close>

theorem ms_to_bft_smallest_threshold_witness:
  "(0::real) \<le> 5 \<and> (5::real) \<le> 999 \<and>
   (\<exists>t b. (t, b) \<in> set bft_table \<and> 5 \<le> t
            \<and> (\<forall>(t', b') \<in> set bft_table. 5 \<le> t' \<longrightarrow> t \<le> t')
            \<and> ms_to_bft 5 = (Inr b, []))"
  using ms_to_bft_smallest_threshold [of 5] by simp

text \<open>
  Claim C3, as amended. For all speeds \<open>0 \<le> s1 \<le> s2 \<le> 999\<close>, \<^verbatim>\<open>ms_to_bft\<close> returns
  Beaufort numbers with \<^verbatim>\<open>ms_to_bft(s1) \<le> ms_to_bft(s2)\<close>, both in the interval \<open>[0, 12]\<close>.
  The bound 999 is needed: above it the function returns the sentinel \<open>-1\<close>.
\<close>

theorem ms_to_bft_monotone_upto_999:
  assumes "0 \<le> s1" and "s1 \<le> s2" and "s2 \<le> 999"
  shows "\<exists>b1 b2. ms_to_bft s1 = (Inr b1, []) \<and> ms_to_bft s2 = (Inr b2, [])
           \<and> b1 \<le> b2 \<and> 0 \<le> b1 \<and> b2 \<le> 12"
proof -
  from assms(3) obtain r2 where r2: "List.find (\<lambda>x. s2 \<le> fst x) bft_table = Some r2"
    using bft_find_Some by blast
  from find_threshold_mono [OF bft_table_fst_sorted bft_table_snd_sorted assms(2) r2]
  obtain r1 where r1: "List.find (\<lambda>x. s1 \<le> fst x) bft_table = Some r1"
    and le: "snd r1 \<le> snd r2" by blast
  from find_threshold_least [OF bft_table_fst_sorted r1] have "r1 \<in> set bft_table" by simp
  then have "0 \<le> snd r1" using bft_table_range by blast
  moreover from find_threshold_least [OF bft_table_fst_sorted r2]
  have "r2 \<in> set bft_table" by simp
  then have "snd r2 \<le> 12" using bft_table_range by blast
  ultimately show ?thesis
    using ms_to_bft_row [OF r1] ms_to_bft_row [OF r2] le by blast
qed

text \<open>The amended statement of C3 at the speeds 2 and 30 m/s.\<close>

theorem ms_to_bft_monotone_upto_999_witness:
  "(0::real) \<le> 2 \<and> (2::real) \<le> 30 \<and> (30::real) \<le> 999 \<and>
   (\<exists>b1 b2. ms_to_bft 2 = (Inr b1, []) \<and> ms_to_bft 30 = (Inr b2, [])
           \<and> b1 \<le> b2 \<and> 0 \<le> b1 \<and> b2 \<le> 12)"
  using ms_to_bft_monotone_upto_999 [of 2 30] by simp

text \<open>
  Claim C3 as stated fails at the non-negative speeds 999 and 1000: the results are 12
  and \<open>-1\<close>, so the function is not monotone there and \<open>-1\<close> is outside \<open>[0, 12]\<close>.
\<close>

theorem ms_to_bft_at_1000:
  "(0::real) \<le> 999 \<and> (999::real) \<le> 1000
   \<and> fst (ms_to_bft 999) = Inr 12 \<and> fst (ms_to_bft 1000) = Inr (- 1)
   \<and> \<not> (12 \<le> (- 1 :: int)) \<and> \<not> (0 \<le> (- 1 :: int))"
  unfolding ms_to_bft_def bft_row_find by (simp add: bft_table_def)

lemma bft_filter_empty_iff:
  "filter (\<lambda>x. fst x \<ge> s) bft_table = [] \<longleftrightarrow> 999 < s"
  by (auto simp: bft_table_def filter_empty_conv)

lemma bft_find_neg:
  assumes "s < 0"
  shows "List.find (\<lambda>x. s \<le> fst x) bft_table = Some (0.3, 0)"
  using assms by (simp add: bft_table_def)

text \<open>
  Claim C4, as amended. No threshold of the table matches a speed exactly when the speed
  is greater than 999; for such a speed \<^verbatim>\<open>ms_to_bft\<close> returns \<open>-1\<close> and
  \<^verbatim>\<open>Env.mps_to_beaufort\<close> returns \<^verbatim>\<open>None\<close>, each after logging one error, and neither
  raises. A negative speed matches every threshold: both functions classify it as
  Beaufort 0 and log nothing.
\<close>

theorem bft_sentinel_above_999:
  "(filter (\<lambda>x. fst x \<ge> s) bft_table = [] \<longleftrightarrow> 999 < s)
   \<and> (999 < s \<longrightarrow>
        ms_to_bft s =
          (Inr (- 1),
           [Log ERROR
              (''ms_to_bft: Cannot translate wind-speed to beaufort-number, '' @
               ''received speed='{speed}' - Exception {e}'')
              [PFloat s, PStr ''min() arg is an empty sequence'']])
        \<and> Env_mps_to_beaufort s =
          (Inr None,
           [Log ERROR
              (''Cannot translate wind-speed to beaufort-number, received: '{speed_in_mps}'' @
               [CHR 0x27])
              [PFloat s]]))
   \<and> (s < 0 \<longrightarrow> ms_to_bft s = (Inr 0, []) \<and> Env_mps_to_beaufort s = (Inr (Some 0), []))"
proof (intro conjI impI)
  show "filter (\<lambda>x. fst x \<ge> s) bft_table = [] \<longleftrightarrow> 999 < s"
    by (rule bft_filter_empty_iff)
next
  assume "999 < s"
  then have "List.find (\<lambda>x. s \<le> fst x) bft_table = None" by (rule bft_find_None)
  then show "ms_to_bft s =
          (Inr (- 1),
           [Log ERROR
              (''ms_to_bft: Cannot translate wind-speed to beaufort-number, '' @
               ''received speed='{speed}' - Exception {e}'')
              [PFloat s, PStr ''min() arg is an empty sequence'']])"
    and "Env_mps_to_beaufort s =
          (Inr None,
           [Log ERROR
              (''Cannot translate wind-speed to beaufort-number, received: '{speed_in_mps}'' @
               [CHR 0x27])
              [PFloat s]])"
    by (simp_all add: ms_to_bft_def Env_mps_to_beaufort_def bft_row_find)
next
  assume "s < 0"
  then have f: "List.find (\<lambda>x. s \<le> fst x) bft_table = Some (0.3, 0)" by (rule bft_find_neg)
  then show "ms_to_bft s = (Inr 0, [])"
    by (simp add: ms_to_bft_def bft_row_find)
  from f show "Env_mps_to_beaufort s = (Inr (Some 0), [])"
    by (simp add: Env_mps_to_beaufort_def bft_row_find)
qed

text \<open>The amended statement of C4 at the speeds 1000 and \<open>-1\<close>.\<close>

theorem bft_sentinel_above_999_witness:
  "(999::real) < 1000 \<and> fst (ms_to_bft 1000) = Inr (- 1)
   \<and> fst (Env_mps_to_beaufort 1000) = Inr None
   \<and> length (snd (ms_to_bft 1000)) = 1 \<and> length (snd (Env_mps_to_beaufort 1000)) = 1
   \<and> (- 1 :: real) < 0 \<and> ms_to_bft (- 1) = (Inr 0, [])
   \<and> Env_mps_to_beaufort (- 1) = (Inr (Some 0), [])"
  using bft_sentinel_above_999 [of 1000] bft_sentinel_above_999 [of "- 1"] by simp

text \<open>
  Claim C4 as stated fails at the negative speed \<open>-1\<close>: \<^verbatim>\<open>ms_to_bft\<close> returns 0, not
  \<open>-1\<close>, and \<^verbatim>\<open>Env.mps_to_beaufort\<close> returns 0, not \<^verbatim>\<open>None\<close>.
\<close>

theorem negative_speed_is_classified:
  "(- 1 :: real) < 0 \<and> fst (ms_to_bft (- 1)) = Inr 0 \<and> fst (ms_to_bft (- 1)) \<noteq> Inr (- 1)
   \<and> fst (Env_mps_to_beaufort (- 1)) = Inr (Some 0)
   \<and> fst (Env_mps_to_beaufort (- 1)) \<noteq> Inr None"
  unfolding ms_to_bft_def Env_mps_to_beaufort_def bft_row_find by (simp add: bft_table_def)

subsection \<open>\<^verbatim>\<open>Env.kmh_to_beaufort\<close>\<close>

text \<open>
  Claim C5. The claim asks that no operation lets an exception reach its caller, and in
  particular that \<^verbatim>\<open>Env.kmh_to_beaufort\<close> returns a Beaufort number or a sentinel for any
  finite speed. The code raises on every speed: the body calls the bare name
  \<^verbatim>\<open>mps_to_beaufort\<close>, which only exists as a method of the class and is bound nowhere in
  the module namespace, so the call ends in \<^verbatim>\<open>NameError\<close>.
\<close>

theorem Env_kmh_to_beaufort_raises:
  "Env_kmh_to_beaufort speed_in_kmh =
     (Inl (NameError (''name 'mps_to_beaufort' is not defined'')), [])"
  by (simp add: Env_kmh_to_beaufort_def env_globals_def)

subsection \<open>Direction labels and Beaufort texts\<close>

lemma py_index_in_range:
  "0 \<le> i \<Longrightarrow> i < int (length xs) \<Longrightarrow> py_index xs i = Inr (xs ! nat i)"
  by (simp add: py_index_def)


























lemma str_lower_de: "str_lower ''de'' = ''de''"
  by code_simp

lemma str_lower_DE: "str_lower ''DE'' = ''de''"
  by code_simp

lemma str_lower_xx: "str_lower ''xx'' = ''xx''"
  by code_simp

lemma descriptions_length:
  "length beaufort_descriptions_de = 13 \<and> length beaufort_descriptions_en = 13"
  by (simp add: beaufort_descriptions_de_def beaufort_descriptions_en_def)

text \<open>
  Claim C9. For an integer \<open>n\<close> in \<open>[0, 12]\<close>, \<^verbatim>\<open>bft_to_text(n, language)\<close> returns entry
  \<open>n\<close> of the German table when \<^verbatim>\<open>language.lower()\<close> is \<^verbatim>\<open>'de'\<close> and entry \<open>n\<close> of the
  English table for any other language code; an integer out of range and a value that
  is not an \<^verbatim>\<open>int\<close> yield the empty string and one logged error; both tables have 13
  entries; \<^verbatim>\<open>bft_to_text(0, 'de') = 'Windstille'\<close>, \<^verbatim>\<open>bft_to_text(13, 'de') = ''\<close> and
  \<^verbatim>\<open>bft_to_text(5, 'xx')\<close> is the English \<^verbatim>\<open>'Fresh breeze'\<close>.
\<close>

theorem bft_to_text_table:
  "(0 \<le> n \<and> n \<le> 12 \<longrightarrow>
      bft_to_text (PInt n) language =
        (Inr ((if str_lower language = ''de'' then beaufort_descriptions_de
               else beaufort_descriptions_en) ! nat n), []))
   \<and> (k < 0 \<or> 12 < k \<longrightarrow>
      bft_to_text (PInt k) language =
        (Inr [], [Log ERROR (''speed_in_bft is out of scale: '{bft}'' @ [CHR 0x27]) [PInt k]]))
   \<and> ((\<forall>i. bft \<noteq> PInt i) \<longrightarrow>
      bft_to_text bft language =
        (Inr [], [Log ERROR (''speed_in_bft is not given as int: '{bft}'' @ [CHR 0x27]) [bft]]))
   \<and> length beaufort_descriptions_de = 13 \<and> length beaufort_descriptions_en = 13
   \<and> bft_to_text (PInt 0) ''de'' = (Inr ''Windstille'', [])
   \<and> fst (bft_to_text (PInt 13) ''de'') = Inr []
   \<and> bft_to_text (PInt 5) ''xx'' = (Inr ''Fresh breeze'', [])"
proof (intro conjI impI)
  assume "0 \<le> n \<and> n \<le> 12"
  then show "bft_to_text (PInt n) language =
        (Inr ((if str_lower language = ''de'' then beaufort_descriptions_de
               else beaufort_descriptions_en) ! nat n), [])"
    using descriptions_length by (simp add: bft_to_text_def py_index_in_range)
next
  assume "k < 0 \<or> 12 < k"
  then show "bft_to_text (PInt k) language =
        (Inr [], [Log ERROR (''speed_in_bft is out of scale: '{bft}'' @ [CHR 0x27]) [PInt k]])"
    by (auto simp: bft_to_text_def)
next
  assume "\<forall>i. bft \<noteq> PInt i"
  then show "bft_to_text bft language =
        (Inr [], [Log ERROR (''speed_in_bft is not given as int: '{bft}'' @ [CHR 0x27]) [bft]])"
    by (cases bft) (simp_all add: bft_to_text_def)
next
  show "bft_to_text (PInt 0) ''de'' = (Inr ''Windstille'', [])"
    by (simp add: bft_to_text_def str_lower_de py_index_def beaufort_descriptions_de_def)
  show "fst (bft_to_text (PInt 13) ''de'') = Inr []"
    by (simp add: bft_to_text_def)
  show "bft_to_text (PInt 5) ''xx'' = (Inr ''Fresh breeze'', [])"
    by (simp add: bft_to_text_def str_lower_xx py_index_def beaufort_descriptions_en_def)
qed (simp_all add: descriptions_length)

text \<open>The statement of C9 at 9 and 13 with the language code \<^verbatim>\<open>'DE'\<close>, and at the
  \<^verbatim>\<open>float\<close> 3.\<close>

theorem bft_to_text_table_witness:
  "(0::int) \<le> 9 \<and> (9::int) \<le> 12 \<and> bft_to_text (PInt 9) ''DE'' = (Inr ''Sturm'', [])
   \<and> (12::int) < 13
   \<and> bft_to_text (PInt 13) ''DE'' =
        (Inr [], [Log ERROR (''speed_in_bft is out of scale: '{bft}'' @ [CHR 0x27]) [PInt 13]])
   \<and> bft_to_text (PFloat 3) ''DE'' =
        (Inr [], [Log ERROR (''speed_in_bft is not given as int: '{bft}'' @ [CHR 0x27])
                    [PFloat 3]])"
  using bft_to_text_table [of 9 "''DE''" 13 "PFloat 3"]
  by (simp add: str_lower_DE beaufort_descriptions_de_def)

section \<open>Properties of the user-module loader\<close>

subsection \<open>Names and namespaces\<close>

lemma namespace_intact_modules:
  "modules st' = modules st \<Longrightarrow> namespace_intact rt st' = namespace_intact rt st"
  by (simp add: namespace_intact_def)

lemma namespace_intact_update:
  assumes "plain_name rt m" and "namespace_intact rt st"
  shows "namespace_intact rt (st\<lparr>objects := h, modules := AList.update m r (modules st)\<rparr>)"
  using assms by (simp add: namespace_intact_def update_keys)

lemma load_name_global:
  assumes "map_of locals n = None"
  shows "load_name locals st n =
     (case map_of (modules st) n of
        Some r \<Rightarrow> Inr (Module r)
      | None \<Rightarrow> Inl (NameError (name_error_message n)))"
  using assms by (simp add: load_name_def)

lemma load_name_local:
  assumes "map_of locals n = Some v"
  shows "load_name locals st n = Inr v"
  using assms by (simp add: load_name_def)


lemma setattr_exec_frame:
  assumes "setattr_exec locals st m a v = (eo, st')"
  shows "modules st' = modules st \<and> user_modules st' = user_modules st
     \<and> func_dir st' = func_dir st \<and> logged st' = logged st"
  using assms by (auto simp: setattr_exec_def split: sum.splits obj.splits)

lemma read_or_default_version_frame:
  assumes "read_or_default_version locals st m = (eo, st')"
  shows "modules st' = modules st \<and> user_modules st' = user_modules st
     \<and> func_dir st' = func_dir st \<and> logged st' = logged st"
proof (cases "getattr_exec locals st m ''_VERSION''")
  case (Inl e)
  with assms have "setattr_exec locals st m ''_VERSION'' (uf_version st) = (eo, st')"
    by (simp add: read_or_default_version_def)
  then show ?thesis by (rule setattr_exec_frame)
next
  case (Inr v)
  with assms show ?thesis by (auto simp: read_or_default_version_def)
qed

lemma read_or_default_description_frame:
  assumes "read_or_default_description locals st m = (eo, st')"
  shows "modules st' = modules st \<and> user_modules st' = user_modules st
     \<and> func_dir st' = func_dir st \<and> logged st' = logged st"
proof (cases "getattr_exec locals st m ''_DESCRIPTION''")
  case (Inl e)
  with assms have "setattr_exec locals st m ''_DESCRIPTION'' (uf_description st) = (eo, st')"
    by (simp add: read_or_default_description_def)
  then show ?thesis by (rule setattr_exec_frame)
next
  case (Inr v)
  with assms show ?thesis by (auto simp: read_or_default_description_def)
qed

subsection \<open>Importing one module\<close>

lemma import_user_module_defined:
  assumes "plain_name rt m" and "namespace_intact rt st"
  shows "\<exists>res st'. import_user_module rt m st = Some (res, st')"
proof -
  from assms have "import_user_module rt m st \<noteq> None" by (simp add: import_user_module_def)
  then show ?thesis by auto
qed

lemma import_user_module_outside:
  assumes "\<not> (plain_name rt m \<and> namespace_intact rt st)"
  shows "import_user_module rt m st = None"
  using assms by (simp add: import_user_module_def)

lemma import_user_module_failure:
  assumes "plain_name rt m" and "namespace_intact rt st"
    and "importlib_import_module rt (uf_subdir @ ''.'' @ m) (objects st) = (Inl e, h)"
  shows "import_user_module rt m st =
     Some (Inr False,
          st\<lparr>objects := h,
             logged := logged st @
               [Log ERROR ''Error importing userfunctions '{m}': {e}''
                  [PStr m, PStr (exc_str e)]]\<rparr>)"
  using assms by (simp add: import_user_module_def)

lemma read_or_default_version_bound:
  assumes "load_name locals st m = Inr (Module r)"
  shows "read_or_default_version locals st m =
     (None, case objects st r ''_VERSION'' of
            Some v \<Rightarrow> st\<lparr>uf_version := v\<rparr>
          | None \<Rightarrow>
              st\<lparr>objects := (objects st)(r := (objects st r)(''_VERSION'' \<mapsto> uf_version st))\<rparr>)"
  using assms
  by (simp add: read_or_default_version_def getattr_exec_def setattr_exec_def
      split: option.splits)

lemma read_or_default_description_bound:
  assumes "load_name locals st m = Inr (Module r)"
  shows "read_or_default_description locals st m =
     (None, case objects st r ''_DESCRIPTION'' of
            Some v \<Rightarrow> st\<lparr>uf_description := v\<rparr>
          | None \<Rightarrow>
              st\<lparr>objects :=
                   (objects st)(r := (objects st r)(''_DESCRIPTION'' \<mapsto> uf_description st))\<rparr>)"
  using assms
  by (simp add: read_or_default_description_def getattr_exec_def setattr_exec_def
      split: option.splits)

lemma read_or_default_version_str:
  assumes "load_name locals st m = Inr (Str s)"
  shows "read_or_default_version locals st m =
     (Some (AttributeError (str_has_no_attribute ''_VERSION'')), st)"
  using assms
  by (simp add: read_or_default_version_def getattr_exec_def setattr_exec_def)

lemma import_user_module_success:
  assumes "plain_name rt m" and "namespace_intact rt st"
    and "m \<noteq> ''m''" and "m \<noteq> ''modulename''"
    and "importlib_import_module rt (uf_subdir @ ''.'' @ m) (objects st) = (Inr r, h)"
  shows "\<exists>st'. import_user_module rt m st = Some (Inr True, st')
     \<and> user_modules st' = user_modules st \<and> func_dir st' = func_dir st
     \<and> modules st' = AList.update m r (modules st)
     \<and> uf_version st' = (case h r ''_VERSION'' of Some v \<Rightarrow> v | None \<Rightarrow> PStr ''?.?.?'')
     \<and> uf_description st' = (case h r ''_DESCRIPTION'' of Some d \<Rightarrow> d | None \<Rightarrow> PStr ''?'')
     \<and> objects st' =
         (case h r ''_DESCRIPTION'' of
            Some d \<Rightarrow> (case h r ''_VERSION'' of
                         Some v \<Rightarrow> h
                       | None \<Rightarrow> h(r := (h r)(''_VERSION'' \<mapsto> PStr ''?.?.?'')))
          | None \<Rightarrow> (case h r ''_VERSION'' of
                       Some v \<Rightarrow> h(r := (h r)(''_DESCRIPTION'' \<mapsto> PStr ''?''))
                     | None \<Rightarrow> h(r := (h r)(''_VERSION'' \<mapsto> PStr ''?.?.?'',
                                               ''_DESCRIPTION'' \<mapsto> PStr ''?''))))
     \<and> logged st' = logged st @
           [Log NOTICE
              (''Imported userfunctions from '{m}' '' @ ''v{_uf_version} - {_uf_description}'')
              [PStr m, uf_version st', uf_description st']]"
proof -
  define locals where
    "locals = [(''m'', Str m), (''modulename'', Str (uf_subdir @ CHR ''.'' # m))]"
  from assms(3,4) have nl: "map_of locals m = None" by (simp add: locals_def)
  have ln: "load_name locals s m = Inr (Module r)"
    if "modules s = AList.update m r (modules st)" for s
    using that by (simp add: load_name_global [OF nl] update_conv')
  show ?thesis
    using assms(1,2,5)
    by (cases "h r ''_VERSION''"; cases "h r ''_DESCRIPTION''")
       (simp_all add: import_user_module_def Let_def locals_def [symmetric] ln
         read_or_default_version_bound read_or_default_description_bound)
qed

lemma import_user_module_str_local:
  assumes "plain_name rt m" and "namespace_intact rt st"
    and "m = ''m'' \<or> m = ''modulename''"
    and "importlib_import_module rt (uf_subdir @ ''.'' @ m) (objects st) = (Inr r, h)"
  shows "import_user_module rt m st =
     Some (Inl (AttributeError (str_has_no_attribute ''_VERSION'')),
           st\<lparr>objects := h, modules := AList.update m r (modules st),
              uf_version := PStr ''?.?.?''\<rparr>)"
  using assms
  by (elim disjE)
     (simp_all add: import_user_module_def Let_def read_or_default_version_def
       getattr_exec_def setattr_exec_def load_name_def)

lemma import_user_module_keeps:
  assumes "import_user_module rt m st = Some (res, st')"
  shows "user_modules st' = user_modules st \<and> func_dir st' = func_dir st
     \<and> namespace_intact rt st'"
proof -
  from assms have p: "plain_name rt m" and i: "namespace_intact rt st"
    by (auto simp: import_user_module_def split: if_splits)
  define locals where
    "locals = [(''m'', Str m), (''modulename'', Str (uf_subdir @ CHR ''.'' # m))]"
  obtain ir h where imp: "importlib_import_module rt (uf_subdir @ ''.'' @ m) (objects st) = (ir, h)"
    by (cases "importlib_import_module rt (uf_subdir @ ''.'' @ m) (objects st)")
  show ?thesis
  proof (cases ir)
    case (Inl e)
    with imp assms p i have "st' = st\<lparr>objects := h,
             logged := logged st @
               [Log ERROR ''Error importing userfunctions '{m}': {e}''
                  [PStr m, PStr (exc_str e)]]\<rparr>"
      by (simp add: import_user_module_failure)
    with i show ?thesis by (simp add: namespace_intact_def)
  next
    case (Inr r)
    define st2 where
      "st2 = st\<lparr>objects := h, modules := AList.update m r (modules st),
                uf_version := PStr ''?.?.?''\<rparr>"
    have i2: "namespace_intact rt st2"
      using namespace_intact_update [OF p i, where h = h and r = r] by (simp add: st2_def namespace_intact_def)
    have k2: "user_modules st2 = user_modules st" "func_dir st2 = func_dir st"
      by (simp_all add: st2_def)
    obtain eo st3 where v: "read_or_default_version locals st2 m = (eo, st3)"
      by (cases "read_or_default_version locals st2 m")
    note f3 = read_or_default_version_frame [OF v]
    from f3 i2 have i3: "namespace_intact rt st3" by (simp add: namespace_intact_def)
    show ?thesis
    proof (cases eo)
      case (Some e)
      with imp Inr v assms p i have "st' = st3"
        by (simp add: import_user_module_def Let_def locals_def [symmetric] st2_def [symmetric])
      with f3 k2 i3 show ?thesis by simp
    next
      case None
      define st4 where "st4 = st3\<lparr>uf_description := PStr ''?''\<rparr>"
      obtain eo' st5 where d: "read_or_default_description locals st4 m = (eo', st5)"
        by (cases "read_or_default_description locals st4 m")
      note f5 = read_or_default_description_frame [OF d]
      from f5 f3 k2 have k5: "user_modules st5 = user_modules st" "func_dir st5 = func_dir st"
        by (simp_all add: st4_def)
      from f5 i3 have i5: "namespace_intact rt st5" by (simp add: namespace_intact_def st4_def)
      show ?thesis
      proof (cases eo')
        case (Some e)
        with imp Inr v None d assms p i have "st' = st5"
          by (simp add: import_user_module_def Let_def locals_def [symmetric]
              st2_def [symmetric] st4_def [symmetric])
        with k5 i5 show ?thesis by simp
      next
        case n: None
        with imp Inr v None d assms p i have "st' = st5\<lparr>logged := logged st5 @
                                   [Log NOTICE
                                      (''Imported userfunctions from '{m}' '' @
                                       ''v{_uf_version} - {_uf_description}'')
                                      [PStr m, uf_version st5, uf_description st5]]\<rparr>"
          by (simp add: import_user_module_def Let_def locals_def [symmetric]
              st2_def [symmetric] st4_def [symmetric])
        with k5 i5 show ?thesis by (simp add: namespace_intact_def)
      qed
    qed
  qed
qed

subsection \<open>Reloading\<close>





subsection \<open>Initialising the registry\<close>





lemma import_all_defined:
  assumes "list_all (plain_name rt) ms" and "namespace_intact rt st"
  shows "\<exists>res st'. import_all rt ms st = Some (res, st')"
  using assms
proof (induction ms arbitrary: st)
  case Nil
  show ?case by simp
next
  case (Cons m ms)
  from Cons.prems have p: "plain_name rt m" and ps: "list_all (plain_name rt) ms" by simp_all
  from import_user_module_defined [OF p Cons.prems(2)]
  obtain r1 st1 where s1: "import_user_module rt m st = Some (r1, st1)" by blast
  from import_user_module_keeps [OF s1] have i1: "namespace_intact rt st1" by simp
  show ?case
  proof (cases r1)
    case (Inl e)
    with s1 show ?thesis by simp
  next
    case (Inr ok)
    from Cons.IH [OF ps i1] obtain res st' where "import_all rt ms st1 = Some (res, st')"
      by blast
    with s1 Inr show ?thesis by simp
  qed
qed


lemma init_lib_defined:
  assumes "namespace_intact rt st"
    and "list_all (plain_name rt) (scan_names (files_seen rt shng_base_dir))"
  shows "\<exists>res st'. init_lib rt shng_base_dir st = Some (res, st')"
proof -
  define fd where
    "fd = os_path_join (case shng_base_dir of Some d \<Rightarrow> d | None \<Rightarrow> os_getcwd rt) uf_subdir"
  define found where "found = scan_names (files_seen rt shng_base_dir)"
  define st2 where "st2 = st\<lparr>func_dir := Some fd, user_modules := sort found\<rparr>"
  from assms(1) have i2: "namespace_intact rt st2" by (simp add: st2_def namespace_intact_def)
  from assms(2) have "list_all (plain_name rt) (user_modules st2)"
    by (simp add: st2_def found_def list_all_iff)
  from import_all_defined [OF this i2]
  obtain res st' where ia: "import_all rt (user_modules st2) st2 = Some (res, st')" by blast
  show ?thesis
  proof (cases "os_path_isdir rt fd")
    case False
    with assms(1) show ?thesis
      by (simp add: init_lib_def Let_def fd_def [symmetric])
  next
    case True
    show ?thesis
    proof (cases "os_listdir rt fd")
      case (Inl e)
      with assms(1) True show ?thesis
        by (simp add: init_lib_def Let_def fd_def [symmetric])
    next
      case (Inr wrk)
      with True have "found = scan_names wrk"
        by (simp add: found_def files_seen_def fd_def [symmetric])
      with assms(1) True Inr ia show ?thesis
        by (simp add: init_lib_def Let_def fd_def [symmetric] st2_def)
    qed
  qed
qed




lemma sample_builtin_names: "builtin_names (sample_runtime files imp rel) = cpython_builtins"
  by (simp add: sample_runtime_def)

lemma sample_plain_names:
  "plain_name (sample_runtime files imp rel) ''foo''"
  "plain_name (sample_runtime files imp rel) ''bar''"
  "plain_name (sample_runtime files imp rel) ''a''"
  "plain_name (sample_runtime files imp rel) ''m''"
  "plain_name (sample_runtime files imp rel) ''userlib''"
  by (simp_all add: plain_name_def sample_builtin_names is_identifier_def ident_start_def
      ident_char_def python_keywords_def loader_globals_def cpython_builtins_def)

lemma initial_loader_intact: "namespace_intact rt initial_loader"
  by (simp add: namespace_intact_def initial_loader_def)







subsection \<open>Metadata placeholders\<close>

text \<open>
  Claim C10 against the code, at the module name \<^verbatim>\<open>m\<close>. \<^verbatim>\<open>functions/m.py\<close> is imported
  successfully and has neither \<^verbatim>\<open>_VERSION\<close> nor \<^verbatim>\<open>_DESCRIPTION\<close>. In the executed texts
  \<^verbatim>\<open>m._VERSION\<close> the name \<^verbatim>\<open>m\<close> is the parameter of \<^verbatim>\<open>import_user_module\<close>, the string
  \<^verbatim>\<open>'m'\<close>: the read raises, the write of the placeholder raises too, the exception leaves
  \<^verbatim>\<open>import_user_module\<close>, and the module object has got no placeholder and nothing is
  logged. The same module file under the name \<^verbatim>\<open>foo\<close> gets both placeholders and the
  import returns \<^verbatim>\<open>True\<close>.
\<close>

theorem import_user_module_named_m:
  "import_user_module
     (sample_runtime [''m.py''] (import_creates [''x'' \<mapsto> PInt 1]) reload_succeeds)
     ''m'' initial_loader
   = Some (Inl (AttributeError
                  ([CHR 0x27] @ ''str' object has no attribute '_VERSION'' @ [CHR 0x27])),
           initial_loader\<lparr>objects := (objects initial_loader)(0 := [''x'' \<mapsto> PInt 1]),
                          modules := [(''m'', 0)], uf_version := PStr ''?.?.?''\<rparr>)
   \<and> import_user_module
       (sample_runtime [''foo.py''] (import_creates [''x'' \<mapsto> PInt 1]) reload_succeeds)
       ''foo'' initial_loader
     = Some (Inr True,
             initial_loader\<lparr>objects := (objects initial_loader)
                              (0 := [''x'' \<mapsto> PInt 1, ''_VERSION'' \<mapsto> PStr ''?.?.?'',
                                     ''_DESCRIPTION'' \<mapsto> PStr ''?'']),
                            modules := [(''foo'', 0)],
                            uf_version := PStr ''?.?.?'', uf_description := PStr ''?'',
                            logged :=
                              [Log NOTICE
                                 (''Imported userfunctions from '{m}' '' @
                                  ''v{_uf_version} - {_uf_description}'')
                                 [PStr ''foo'', PStr ''?.?.?'', PStr ''?'']]\<rparr>)"
proof -
  let ?rt = "sample_runtime [''m.py''] (import_creates [''x'' \<mapsto> PInt 1]) reload_succeeds"
  let ?rt' = "sample_runtime [''foo.py''] (import_creates [''x'' \<mapsto> PInt 1]) reload_succeeds"
  have p: "plain_name ?rt ''m''" by (rule sample_plain_names)
  have p': "plain_name ?rt' ''foo''" by (rule sample_plain_names)
  have i: "namespace_intact ?rt initial_loader" "namespace_intact ?rt' initial_loader"
    by (rule initial_loader_intact)+
  have one: "import_user_module ?rt ''m'' initial_loader
   = Some (Inl (AttributeError
                  ([CHR 0x27] @ ''str' object has no attribute '_VERSION'' @ [CHR 0x27])),
           initial_loader\<lparr>objects := (objects initial_loader)(0 := [''x'' \<mapsto> PInt 1]),
                          modules := [(''m'', 0)], uf_version := PStr ''?.?.?''\<rparr>)"
    using p i(1)
    by (simp add: import_user_module_def Let_def read_or_default_version_def
        getattr_exec_def setattr_exec_def load_name_def str_has_no_attribute_def
        sample_runtime_def import_creates_def initial_loader_def)
  have two: "import_user_module ?rt' ''foo'' initial_loader
     = Some (Inr True,
             initial_loader\<lparr>objects := (objects initial_loader)
                              (0 := [''x'' \<mapsto> PInt 1, ''_VERSION'' \<mapsto> PStr ''?.?.?'',
                                     ''_DESCRIPTION'' \<mapsto> PStr ''?'']),
                            modules := [(''foo'', 0)],
                            uf_version := PStr ''?.?.?'', uf_description := PStr ''?'',
                            logged :=
                              [Log NOTICE
                                 (''Imported userfunctions from '{m}' '' @
                                  ''v{_uf_version} - {_uf_description}'')
                                 [PStr ''foo'', PStr ''?.?.?'', PStr ''?'']]\<rparr>)"
    using p' i(2)
    by (simp add: import_user_module_def Let_def read_or_default_version_def
        read_or_default_description_def
        getattr_exec_def setattr_exec_def load_name_def
        sample_runtime_def import_creates_def initial_loader_def)
  from one two show ?thesis by (rule conjI)
qed

subsection \<open>Reload outcomes\<close>




end
